theory Spec2Isabelle
  imports
    Complex_Main
    "HOL-Library.Char_ord"
    "HOL-Library.List_Lexorder"
    "HOL-Library.Product_Lexorder"
    "HOL-Library.Multiset"
    "HOL-Library.Sublist"
begin

section \<open>The aircrash dashboard: tables, loading, filters and views\<close>

text \<open>
  The program is one Python script over a pandas table. The table read from the CSV file
  is the input of the model; the widgets of the page (the four multiselects) and the two
  library routines whose result the script does not fix (the date parser and the sort
  behind \<open>sort_values\<close> and \<open>value_counts\<close>) are parameters.

  Numbers are rationals: the rounding of 64-bit floats is not modelled, the not-a-number
  value is. Strings are byte strings, compared as Python compares them (by code point,
  which is the byte order of UTF-8).
\<close>

subsection \<open>Cells, rows and tables\<close>

datatype month =
  January | February | March | April | May | June
  | July | August | September | October | November | December

datatype timestamp = Timestamp (ts_year: int) (ts_month: month)

text \<open>
  A cell of a table: a missing value (\<open>NaN\<close>, also standing for \<open>NaT\<close>), a string,
  a number or a parsed date.
\<close>

datatype cell = NaN | Str string | Num rat | Ts timestamp

type_synonym row = "string \<Rightarrow> cell"

text \<open>
  A table is its column labels, in order, and its rows. A row is read only at the labels
  of the table: every access below checks the label first, as \<open>df[key]\<close> does.
\<close>

record dataframe =
  columns :: "string list"
  rows :: "row list"

datatype error = KeyError string | TypeError | ValueError

definition bind :: "error + 'a \<Rightarrow> ('a \<Rightarrow> error + 'b) \<Rightarrow> error + 'b" where
  "bind m f = (case m of Inl e \<Rightarrow> Inl e | Inr x \<Rightarrow> f x)"

text \<open>\<open>df[key]\<close>: the column as a list of cells, or \<open>KeyError\<close>.\<close>

definition getitem :: "dataframe \<Rightarrow> string \<Rightarrow> error + cell list" where
  "getitem df key =
     (if key \<in> set (columns df) then Inr (map (\<lambda>r. r key) (rows df))
      else Inl (KeyError key))"

text \<open>
  \<open>df[key] = values\<close>: a new column is appended, an old one replaced; pandas raises
  \<open>ValueError\<close> when the lengths differ.
\<close>

definition setitem :: "string \<Rightarrow> cell list \<Rightarrow> dataframe \<Rightarrow> error + dataframe" where
  "setitem key vals df =
     (if length vals = length (rows df)
      then Inr \<lparr>columns = (if key \<in> set (columns df) then columns df else columns df @ [key]),
                rows = map (\<lambda>(r, v). r(key := v)) (zip (rows df) vals)\<rparr>
      else Inl ValueError)"

text \<open>\<open>df[key] = c\<close> for a scalar \<open>c\<close>: the value is broadcast to every row.\<close>

definition setitem_scalar :: "string \<Rightarrow> cell \<Rightarrow> dataframe \<Rightarrow> dataframe" where
  "setitem_scalar key c df =
     \<lparr>columns = (if key \<in> set (columns df) then columns df else columns df @ [key]),
      rows = map (\<lambda>r. r(key := c)) (rows df)\<rparr>"

text \<open>
  \<open>df.fillna({...})\<close>: in each column named by the dictionary and present in the table,
  a missing value is replaced; a key that is no column is skipped.
\<close>

definition fillna_row :: "(string \<times> cell) list \<Rightarrow> string list \<Rightarrow> row \<Rightarrow> row" where
  "fillna_row d cols r =
     (\<lambda>k. case map_of d k of
            None \<Rightarrow> r k
          | Some v \<Rightarrow> if k \<in> set cols \<and> r k = NaN then v else r k)"

definition fillna :: "(string \<times> cell) list \<Rightarrow> dataframe \<Rightarrow> dataframe" where
  "fillna d df = \<lparr>columns = columns df, rows = map (fillna_row d (columns df)) (rows df)\<rparr>"

text \<open>\<open>series.fillna(v)\<close> on one column.\<close>

definition fillna_cell :: "cell \<Rightarrow> cell \<Rightarrow> cell" where
  "fillna_cell v c = (if c = NaN then v else c)"

definition fillna_series :: "cell \<Rightarrow> cell list \<Rightarrow> cell list" where
  "fillna_series v xs = map (fillna_cell v) xs"

text \<open>
  \<open>df.rename(columns={old: new}, inplace=True)\<close>. When the new label is a column already,
  the table would hold two columns of that label and the assignment of line 27 raises
  \<open>ValueError\<close> (a two-column frame cannot be set to one column); the model raises here.
\<close>

definition rename_column :: "string \<Rightarrow> string \<Rightarrow> dataframe \<Rightarrow> error + dataframe" where
  "rename_column old new df =
     (if new \<in> set (columns df) \<and> new \<noteq> old then Inl ValueError
      else Inr \<lparr>columns = map (\<lambda>c. if c = old then new else c) (columns df),
                rows = map (\<lambda>r. r(new := r old)) (rows df)\<rparr>)"

text \<open>
  Element-wise \<open>+\<close> of two cells: numbers add, a missing number propagates, two strings
  concatenate, and a string with a number is Python's \<open>TypeError\<close>.
\<close>

fun add_cell :: "cell \<Rightarrow> cell \<Rightarrow> error + cell" where
  "add_cell (Num a) (Num b) = Inr (Num (a + b))"
| "add_cell NaN (Num b) = Inr NaN"
| "add_cell (Num a) NaN = Inr NaN"
| "add_cell NaN NaN = Inr NaN"
| "add_cell (Str a) (Str b) = Inr (Str (a @ b))"
| "add_cell _ _ = Inl TypeError"

fun add_series :: "cell list \<Rightarrow> cell list \<Rightarrow> error + cell list" where
  "add_series [] [] = Inr []"
| "add_series (a # as) (b # bs) =
     bind (add_cell a b) (\<lambda>c. bind (add_series as bs) (\<lambda>cs. Inr (c # cs)))"
| "add_series _ _ = Inl ValueError"

subsection \<open>Dates\<close>

text \<open>
  \<open>pd.to_datetime(column, errors="coerce")\<close> is the library's parser: a parameter that
  sees the whole column (pandas infers one format for it) and answers, for each cell, a
  timestamp or nothing. It never raises.
\<close>

definition pd_to_datetime :: "(cell list \<Rightarrow> cell \<Rightarrow> timestamp option) \<Rightarrow> cell list \<Rightarrow> cell list" where
  "pd_to_datetime to_datetime xs =
     map (\<lambda>c. case to_datetime xs c of None \<Rightarrow> NaN | Some t \<Rightarrow> Ts t) xs"

fun dt_year :: "cell \<Rightarrow> cell" where
  "dt_year (Ts t) = Num (of_int (ts_year t))"
| "dt_year _ = NaN"

fun month_name :: "month \<Rightarrow> string" where
  "month_name January = ''January''"
| "month_name February = ''February''"
| "month_name March = ''March''"
| "month_name April = ''April''"
| "month_name May = ''May''"
| "month_name June = ''June''"
| "month_name July = ''July''"
| "month_name August = ''August''"
| "month_name September = ''September''"
| "month_name October = ''October''"
| "month_name November = ''November''"
| "month_name December = ''December''"

fun dt_month_name :: "cell \<Rightarrow> cell" where
  "dt_month_name (Ts t) = Str (month_name (ts_month t))"
| "dt_month_name _ = NaN"

subsection \<open>load_data\<close>

definition unspecified :: "(string \<times> cell) list" where
  "unspecified =
     [(''Country/Region'', Str ''Unspecified''),
      (''Operator'', Str ''Unspecified''),
      (''Aircraft'', Str ''Unspecified''),
      (''Location'', Str ''Unspecified'')]"

definition load_fatalities :: "dataframe \<Rightarrow> error + dataframe" where
  "load_fatalities df0 =
     bind (if ''Fatalities (air)'' \<in> set (columns df0)
           then rename_column ''Fatalities (air)'' ''Air'' df0
           else Inr (setitem_scalar ''Air'' (Num 0) df0)) (\<lambda>df1.
     let df2 = (if ''Ground'' \<notin> set (columns df1)
                then setitem_scalar ''Ground'' (Num 0) df1 else df1) in
     bind (getitem df2 ''Air'') (\<lambda>air.
     bind (getitem df2 ''Ground'') (\<lambda>ground.
     bind (add_series (fillna_series (Num 0) air) (fillna_series (Num 0) ground)) (\<lambda>fat.
     setitem ''Fatalities'' fat df2))))"

definition load_dates :: "(cell list \<Rightarrow> cell \<Rightarrow> timestamp option) \<Rightarrow> dataframe \<Rightarrow> error + dataframe" where
  "load_dates to_datetime df3 =
     (if ''Date'' \<in> set (columns df3) then
        bind (getitem df3 ''Date'') (\<lambda>d.
        bind (setitem ''Date'' (pd_to_datetime to_datetime d) df3) (\<lambda>df4.
        bind (getitem df4 ''Date'') (\<lambda>d4.
        bind (setitem ''Year'' (map dt_year d4) df4) (\<lambda>df5.
        bind (getitem df5 ''Date'') (\<lambda>d5.
        setitem ''Month'' (map dt_month_name d5) df5)))))
      else Inr df3)"

text \<open>
  \<open>load_data\<close>, lines 6 to 34, from the table that \<open>read_csv\<close> returned: the categorical
  fill, the two fatality columns and their sum, then the date columns.
\<close>

definition load_data :: "(cell list \<Rightarrow> cell \<Rightarrow> timestamp option) \<Rightarrow> dataframe \<Rightarrow> error + dataframe" where
  "load_data to_datetime csv =
     bind (load_fatalities (fillna unspecified csv)) (load_dates to_datetime)"

subsection \<open>Filter options, the selection and the filtered view\<close>

text \<open>
  \<open>series.unique()\<close>: the distinct values in the order of their first appearance.
  \<open>series.dropna()\<close>: the values that are not missing.
\<close>

fun unique :: "'a list \<Rightarrow> 'a list" where
  "unique [] = []"
| "unique (x # xs) = x # unique (filter (\<lambda>y. y \<noteq> x) xs)"

definition dropna :: "cell list \<Rightarrow> cell list" where
  "dropna xs = filter (\<lambda>c. c \<noteq> NaN) xs"

text \<open>The dictionary \<open>filters\<close> of lines 44 to 49, as a list of items in insertion order.\<close>

definition filters :: "dataframe \<Rightarrow> error + (string \<times> cell list) list" where
  "filters df =
     bind (getitem df ''Country/Region'') (\<lambda>cr.
     bind (getitem df ''Aircraft'') (\<lambda>ac.
     bind (getitem df ''Operator'') (\<lambda>op.
     bind (if ''Year'' \<in> set (columns df)
           then bind (getitem df ''Year'') (\<lambda>y. Inr (unique (dropna y)))
           else Inr []) (\<lambda>yr.
     Inr [(''Country/Region'', unique cr),
          (''Aircraft'', unique ac),
          (''Operator'', unique op),
          (''Year'', yr)]))))"

text \<open>
  Lines 51 to 53: one multiselect per dimension. What the user picks is the parameter
  \<open>multiselect\<close>, from the label and the options to the picked values.
\<close>

definition select_filters ::
  "(string \<Rightarrow> cell list \<Rightarrow> cell list) \<Rightarrow> (string \<times> cell list) list \<Rightarrow> (string \<times> cell list) list" where
  "select_filters multiselect fs = map (\<lambda>(key, options). (key, multiselect key options)) fs"

text \<open>\<open>frame[frame[key].isin(values)]\<close>: the rows whose cell is one of the values.\<close>

definition isin_rows :: "string \<Rightarrow> cell list \<Rightarrow> dataframe \<Rightarrow> error + dataframe" where
  "isin_rows key vals df =
     bind (getitem df key) (\<lambda>_.
     Inr \<lparr>columns = columns df, rows = filter (\<lambda>r. r key \<in> set vals) (rows df)\<rparr>)"

text \<open>The loop of lines 57 to 59 over the items of \<open>selected_filters\<close>.\<close>

fun apply_filters :: "(string \<times> cell list) list \<Rightarrow> dataframe \<Rightarrow> error + dataframe" where
  "apply_filters [] filtered_df = Inr filtered_df"
| "apply_filters ((key, selected_values) # rest) filtered_df =
     (if selected_values \<noteq> []
      then bind (isin_rows key selected_values filtered_df) (apply_filters rest)
      else apply_filters rest filtered_df)"

subsection \<open>The KPIs\<close>

text \<open>
  \<open>series.sum()\<close> skips missing values and is 0 on an empty column. The columns the
  script adds up are numeric ones; a text or date cell there is outside the table the
  script is written for, and the model answers \<open>TypeError\<close>.
\<close>

fun sum_cells :: "cell list \<Rightarrow> error + rat" where
  "sum_cells [] = Inr 0"
| "sum_cells (Num a # xs) = bind (sum_cells xs) (\<lambda>s. Inr (a + s))"
| "sum_cells (NaN # xs) = sum_cells xs"
| "sum_cells (_ # xs) = Inl TypeError"

text \<open>
  \<open>series.mean()\<close>: the sum of the values present over their number, and not-a-number
  when there is none. The library returns the value; it does not raise.
\<close>

definition mean_cells :: "cell list \<Rightarrow> error + cell" where
  "mean_cells xs =
     bind (sum_cells xs) (\<lambda>s.
     Inr (if length (dropna xs) = 0 then NaN else Num (s / of_nat (length (dropna xs)))))"

definition total_crashes :: "dataframe \<Rightarrow> nat" where
  "total_crashes filtered_df = length (rows filtered_df)"

definition total_fatalities :: "dataframe \<Rightarrow> error + rat" where
  "total_fatalities filtered_df = bind (getitem filtered_df ''Fatalities'') sum_cells"

definition total_aboard :: "dataframe \<Rightarrow> error + rat" where
  "total_aboard filtered_df = bind (getitem filtered_df ''Aboard'') sum_cells"

definition avg_fatalities :: "dataframe \<Rightarrow> error + cell" where
  "avg_fatalities filtered_df = bind (getitem filtered_df ''Fatalities'') mean_cells"

text \<open>Line 68, as the number shown before the percent sign.\<close>

definition percent_fatalities :: "dataframe \<Rightarrow> dataframe \<Rightarrow> error + rat" where
  "percent_fatalities df filtered_df =
     bind (total_fatalities df) (\<lambda>whole.
     if whole > 0
     then bind (total_fatalities filtered_df) (\<lambda>part. Inr (part / whole * 100))
     else Inr 0)"

subsection \<open>Grouping, counting and sorting\<close>

text \<open>
  The order of cells that \<open>groupby\<close> sorts its keys by: numbers by value, strings by code
  point, dates by time; in a column that mixes them, numbers come before strings.
\<close>

fun month_number :: "month \<Rightarrow> nat" where
  "month_number January = 1"
| "month_number February = 2"
| "month_number March = 3"
| "month_number April = 4"
| "month_number May = 5"
| "month_number June = 6"
| "month_number July = 7"
| "month_number August = 8"
| "month_number September = 9"
| "month_number October = 10"
| "month_number November = 11"
| "month_number December = 12"

fun cell_rank :: "cell \<Rightarrow> nat \<times> rat \<times> string" where
  "cell_rank NaN = (0, 0, [])"
| "cell_rank (Num a) = (1, a, [])"
| "cell_rank (Str s) = (2, 0, s)"
| "cell_rank (Ts t) = (3, of_int (ts_year t) * 12 + of_nat (month_number (ts_month t)), [])"

text \<open>A row given by its cells; every other label reads as missing.\<close>

definition mk_row :: "(string \<times> cell) list \<Rightarrow> row" where
  "mk_row kvs = (\<lambda>k. case map_of kvs k of Some c \<Rightarrow> c | None \<Rightarrow> NaN)"

text \<open>
  \<open>frame.groupby(by)\<close> with the defaults \<open>sort=True\<close> and \<open>dropna=True\<close>: the distinct key
  tuples without a missing part, in ascending order.
\<close>

definition groupby_keys :: "string list \<Rightarrow> dataframe \<Rightarrow> cell list list" where
  "groupby_keys by df =
     sort_key (map cell_rank)
       (unique (filter (\<lambda>k. NaN \<notin> set k) (map (\<lambda>r. map r by) (rows df))))"

definition missing_label :: "string list \<Rightarrow> dataframe \<Rightarrow> error + unit" where
  "missing_label labels df =
     (case filter (\<lambda>c. c \<notin> set (columns df)) labels of
        [] \<Rightarrow> Inr ()
      | c # _ \<Rightarrow> Inl (KeyError c))"

text \<open>\<open>frame.groupby(by).size().reset_index(name=name)\<close>.\<close>

definition groupby_size :: "string list \<Rightarrow> string \<Rightarrow> dataframe \<Rightarrow> error + dataframe" where
  "groupby_size by name df =
     bind (missing_label by df) (\<lambda>_.
     Inr \<lparr>columns = by @ [name],
          rows = map (\<lambda>k. mk_row (zip by k @
                   [(name, Num (of_nat (length (filter (\<lambda>r. map r by = k) (rows df)))))]))
                 (groupby_keys by df)\<rparr>)"

fun sequence :: "(error + 'a) list \<Rightarrow> error + 'a list" where
  "sequence [] = Inr []"
| "sequence (m # ms) = bind m (\<lambda>x. bind (sequence ms) (\<lambda>xs. Inr (x # xs)))"

text \<open>\<open>frame.groupby(by)[cols].sum().reset_index()\<close>.\<close>

definition groupby_sum :: "string list \<Rightarrow> string list \<Rightarrow> dataframe \<Rightarrow> error + dataframe" where
  "groupby_sum by cols df =
     bind (missing_label (by @ cols) df) (\<lambda>_.
     bind (sequence (map (\<lambda>k.
             bind (sequence (map (\<lambda>c. sum_cells (map (\<lambda>r. r c)
                                     (filter (\<lambda>r. map r by = k) (rows df)))) cols)) (\<lambda>totals.
             Inr (mk_row (zip by k @ zip cols (map Num totals)))))
           (groupby_keys by df))) (\<lambda>rs.
     Inr \<lparr>columns = by @ cols, rows = rs\<rparr>))"

text \<open>
  \<open>frame.sort_values(by=label, ascending=...)\<close> is called with the library's default
  kind of sort, quicksort, which the library documents as not stable: the order of rows
  with equal keys is not fixed by the script. The sort is the parameter \<open>sort_values\<close>,
  from the label, the direction and the table to the sorted table.

  \<open>series.value_counts().reset_index()\<close>: one row per distinct value present, with the
  number of its occurrences, sorted by that number, largest first, by the same sort.
  (pandas 2 labels the two columns by the series' name and \<open>count\<close>; the script relabels
  them by position right after.)
\<close>

type_synonym sorter = "string \<Rightarrow> bool \<Rightarrow> dataframe \<Rightarrow> dataframe"

definition count_table :: "string \<Rightarrow> cell list \<Rightarrow> dataframe" where
  "count_table key xs =
     \<lparr>columns = [key, ''count''],
      rows = map (\<lambda>v. mk_row [(key, v), (''count'', Num (of_nat (count_list xs v)))])
               (unique (dropna xs))\<rparr>"

definition value_counts :: "sorter \<Rightarrow> string \<Rightarrow> dataframe \<Rightarrow> error + dataframe" where
  "value_counts sort_values key df =
     bind (getitem df key) (\<lambda>xs. Inr (sort_values ''count'' False (count_table key xs)))"

definition head :: "nat \<Rightarrow> dataframe \<Rightarrow> dataframe" where
  "head n df = \<lparr>columns = columns df, rows = take n (rows df)\<rparr>"

text \<open>\<open>frame.columns = names\<close>: the columns are relabelled by position.\<close>

definition set_columns :: "string list \<Rightarrow> dataframe \<Rightarrow> error + dataframe" where
  "set_columns names df =
     (if length names = length (columns df)
      then Inr \<lparr>columns = names,
                rows = map (\<lambda>r k. case map_of (zip names (columns df)) k of
                                     Some old \<Rightarrow> r old | None \<Rightarrow> NaN) (rows df)\<rparr>
      else Inl ValueError)"

subsection \<open>The research questions\<close>

definition q1_top :: "sorter \<Rightarrow> dataframe \<Rightarrow> error + dataframe" where
  "q1_top sort_values filtered_df =
     bind (groupby_size [''Country/Region'', ''Aircraft''] ''Crashes'' filtered_df) (\<lambda>q1.
     Inr (head 10 (sort_values ''Crashes'' False q1)))"

text \<open>Lines 91 and 98, 106: the counts of one column, cut to the first \<open>n\<close> rows.\<close>

definition top_counts :: "sorter \<Rightarrow> string \<Rightarrow> nat \<Rightarrow> dataframe \<Rightarrow> error + dataframe" where
  "top_counts sort_values key n filtered_df =
     bind (value_counts sort_values key filtered_df) (\<lambda>counts. Inr (head n counts))"

text \<open>Lines 106 to 108: the table of Q4 as \<open>st.dataframe\<close> shows it.\<close>

definition q4_shown :: "sorter \<Rightarrow> dataframe \<Rightarrow> error + dataframe" where
  "q4_shown sort_values filtered_df =
     bind (top_counts sort_values ''Year'' 10 filtered_df) (\<lambda>q4.
     bind (set_columns [''Year'', ''Crashes''] q4) (\<lambda>q4.
     Inr (sort_values ''Year'' True q4)))"

definition q5 :: "sorter \<Rightarrow> dataframe \<Rightarrow> error + dataframe" where
  "q5 sort_values filtered_df =
     bind (groupby_sum [''Location''] [''Fatalities''] filtered_df) (\<lambda>totals.
     Inr (head 5 (sort_values ''Fatalities'' False totals)))"

definition q6 :: "sorter \<Rightarrow> dataframe \<Rightarrow> error + dataframe" where
  "q6 sort_values filtered_df =
     bind (groupby_sum [''Country/Region''] [''Aboard'', ''Fatalities''] filtered_df) (\<lambda>totals.
     Inr (head 5 (sort_values ''Aboard'' False totals)))"

definition q10 :: "sorter \<Rightarrow> dataframe \<Rightarrow> error + dataframe" where
  "q10 sort_values filtered_df =
     bind (groupby_sum [''Month''] [''Fatalities''] filtered_df) (\<lambda>totals.
     Inr (sort_values ''Fatalities'' False totals))"

subsection \<open>The script: objects, variables and what the page shows\<close>

text \<open>
  Tables are objects: a variable holds a reference, \<open>df.copy()\<close> and every pandas call
  that returns a table make a new object, and \<open>q.columns = names\<close> changes an object in
  place. The store is the list of the objects made so far; a reference is an index into it.
  A statement is a function from the store to an error or a result with the new store.
\<close>

type_synonym heap = "dataframe list"

type_synonym 'a prog = "heap \<Rightarrow> error + 'a \<times> heap"

definition pbind :: "'a prog \<Rightarrow> ('a \<Rightarrow> 'b prog) \<Rightarrow> 'b prog" where
  "pbind m f h = (case m h of Inl e \<Rightarrow> Inl e | Inr (x, h') \<Rightarrow> f x h')"

definition lift :: "error + 'a \<Rightarrow> 'a prog" where
  "lift m h = (case m of Inl e \<Rightarrow> Inl e | Inr x \<Rightarrow> Inr (x, h))"

definition new :: "dataframe \<Rightarrow> nat prog" where
  "new d h = Inr (length h, h @ [d])"

definition deref :: "nat \<Rightarrow> dataframe prog" where
  "deref a h = Inr (h ! a, h)"

definition assign_columns :: "nat \<Rightarrow> string list \<Rightarrow> unit prog" where
  "assign_columns a names h =
     (case set_columns names (h ! a) of Inl e \<Rightarrow> Inl e | Inr d \<Rightarrow> Inr ((), h[a := d]))"

text \<open>The two library routines and the widget the script is run with.\<close>

record env =
  lib_to_datetime :: "cell list \<Rightarrow> cell \<Rightarrow> timestamp option"
  lib_sort_values :: sorter
  ui_multiselect :: "string \<Rightarrow> cell list \<Rightarrow> cell list"

text \<open>Lines 57 to 59 on the store: each pass that filters binds the variable to a new table.\<close>

fun apply_filters_loop :: "(string \<times> cell list) list \<Rightarrow> nat \<Rightarrow> nat prog" where
  "apply_filters_loop [] filtered_df = lift (Inr filtered_df)"
| "apply_filters_loop ((key, selected_values) # rest) filtered_df =
     (if selected_values \<noteq> []
      then pbind (deref filtered_df) (\<lambda>d.
           pbind (lift (isin_rows key selected_values d)) (\<lambda>d'.
           pbind (new d') (apply_filters_loop rest)))
      else apply_filters_loop rest filtered_df)"

record dashboard =
  shown_filters :: "(string \<times> cell list) list"
  shown_total_crashes :: nat
  shown_total_fatalities :: rat
  shown_total_aboard :: rat
  shown_avg_fatalities :: cell
  shown_percent_fatalities :: rat
  shown_q1 :: dataframe
  shown_q2 :: dataframe
  shown_q3 :: dataframe
  shown_q4 :: "dataframe option"
  shown_q5 :: dataframe
  shown_q6 :: dataframe
  shown_q10 :: "dataframe option"

text \<open>Lines 64 to 68.\<close>

definition quick_kpis :: "nat \<Rightarrow> nat \<Rightarrow> (nat \<times> rat \<times> rat \<times> cell \<times> rat) prog" where
  "quick_kpis df filtered_df =
     pbind (deref filtered_df) (\<lambda>v.
     pbind (lift (total_fatalities v)) (\<lambda>tf.
     pbind (lift (total_aboard v)) (\<lambda>ta.
     pbind (lift (avg_fatalities v)) (\<lambda>avg.
     pbind (deref df) (\<lambda>d.
     pbind (lift (percent_fatalities d v)) (\<lambda>pct.
     lift (Inr (total_crashes v, tf, ta, avg, pct))))))))"

text \<open>
  Lines 91 and 92 (and 98 and 99, 106 and 107): the counts are a new table, whose columns
  are then relabelled in place.
\<close>

definition counted :: "sorter \<Rightarrow> nat \<Rightarrow> string \<Rightarrow> nat \<Rightarrow> string list \<Rightarrow> nat prog" where
  "counted sort_values filtered_df key n names =
     pbind (deref filtered_df) (\<lambda>v.
     pbind (lift (top_counts sort_values key n v)) (\<lambda>counts.
     pbind (new counts) (\<lambda>q.
     pbind (assign_columns q names) (\<lambda>_.
     lift (Inr q)))))"

text \<open>A table computed from the filtered view, bound to a new variable and shown.\<close>

definition computed :: "nat \<Rightarrow> (dataframe \<Rightarrow> error + dataframe) \<Rightarrow> dataframe prog" where
  "computed filtered_df f =
     pbind (deref filtered_df) (\<lambda>v.
     pbind (lift (f v)) (\<lambda>t.
     pbind (new t) deref))"

definition question1 :: "sorter \<Rightarrow> nat \<Rightarrow> dataframe prog" where
  "question1 sort_values filtered_df =
     pbind (deref filtered_df) (\<lambda>v.
     pbind (lift (groupby_size [''Country/Region'', ''Aircraft''] ''Crashes'' v)) (\<lambda>t.
     pbind (new t) (\<lambda>q1.
     pbind (deref q1) (\<lambda>t1.
     pbind (new (head 10 (sort_values ''Crashes'' False t1))) deref))))"

definition question4 :: "sorter \<Rightarrow> nat \<Rightarrow> dataframe option prog" where
  "question4 sort_values filtered_df =
     pbind (deref filtered_df) (\<lambda>v.
     if ''Year'' \<in> set (columns v)
     then pbind (counted sort_values filtered_df ''Year'' 10 [''Year'', ''Crashes'']) (\<lambda>q4.
          pbind (deref q4) (\<lambda>t4.
          lift (Inr (Some (sort_values ''Year'' True t4)))))
     else lift (Inr None))"

definition question10 :: "sorter \<Rightarrow> nat \<Rightarrow> dataframe option prog" where
  "question10 sort_values filtered_df =
     pbind (deref filtered_df) (\<lambda>v.
     if ''Month'' \<in> set (columns v)
     then pbind (computed filtered_df (q10 sort_values)) (\<lambda>t. lift (Inr (Some t)))
     else lift (Inr None))"

text \<open>Lines 91 to 93 (and 98 to 100): the variable is made, relabelled and shown.\<close>

definition shown_counts :: "sorter \<Rightarrow> nat \<Rightarrow> string \<Rightarrow> nat \<Rightarrow> string list \<Rightarrow> dataframe prog" where
  "shown_counts sort_values filtered_df key n names =
     pbind (counted sort_values filtered_df key n names) deref"

text \<open>Lines 61 to 140, from the variables \<open>df\<close> and \<open>filtered_df\<close>: the KPIs and the questions.\<close>

definition page_body :: "sorter \<Rightarrow> (string \<times> cell list) list \<Rightarrow> nat \<Rightarrow> nat \<Rightarrow> dashboard prog" where
  "page_body sort_values fs df filtered_df =
     pbind (quick_kpis df filtered_df) (\<lambda>(tc, tf, ta, avg, pct).
     pbind (question1 sort_values filtered_df) (\<lambda>s1.
     pbind (shown_counts sort_values filtered_df ''Aircraft'' 6 [''Aircraft'', ''Crashes'']) (\<lambda>s2.
     pbind (shown_counts sort_values filtered_df ''Operator'' 5 [''Operator'', ''Crashes'']) (\<lambda>s3.
     pbind (question4 sort_values filtered_df) (\<lambda>s4.
     pbind (computed filtered_df (q5 sort_values)) (\<lambda>s5.
     pbind (computed filtered_df (q6 sort_values)) (\<lambda>s6.
     pbind (question10 sort_values filtered_df) (\<lambda>s10.
     lift (Inr \<lparr>shown_filters = fs,
                shown_total_crashes = tc,
                shown_total_fatalities = tf,
                shown_total_aboard = ta,
                shown_avg_fatalities = avg,
                shown_percent_fatalities = pct,
                shown_q1 = s1, shown_q2 = s2, shown_q3 = s3, shown_q4 = s4,
                shown_q5 = s5, shown_q6 = s6, shown_q10 = s10\<rparr>)))))))))"

text \<open>
  Lines 39 to 140, from the variable \<open>df\<close>: the options, the selection, the copy and the
  filtered view, then the KPIs and the questions.
\<close>

definition render :: "env \<Rightarrow> nat \<Rightarrow> dashboard prog" where
  "render e df =
     pbind (deref df) (\<lambda>d.
     pbind (lift (filters d)) (\<lambda>fs.
     pbind (new d) (\<lambda>copy.
     pbind (apply_filters_loop (select_filters (ui_multiselect e) fs) copy) (\<lambda>filtered_df.
     page_body (lib_sort_values e) fs df filtered_df))))"

text \<open>
  The whole script on the table that \<open>read_csv\<close> returned: \<open>load_data\<close>, then the page.
  An error anywhere ends in the \<open>except\<close> branch, which shows the error.
\<close>

definition script :: "env \<Rightarrow> dataframe \<Rightarrow> error + dashboard \<times> heap" where
  "script e csv =
     pbind (lift (load_data (lib_to_datetime e) csv)) (\<lambda>d.
     pbind (new d) (render e)) []"

subsection \<open>The page as a function of the tables\<close>

text \<open>
  What lines 61 to 140 compute from the value of the dataset and of the filtered view,
  without the store; the statements above are shown below to compute exactly this.
\<close>

definition compute_views ::
  "sorter \<Rightarrow> (string \<times> cell list) list \<Rightarrow> dataframe \<Rightarrow> dataframe \<Rightarrow> error + dashboard" where
  "compute_views sort_values fs df filtered_df =
     bind (total_fatalities filtered_df) (\<lambda>tf.
     bind (total_aboard filtered_df) (\<lambda>ta.
     bind (avg_fatalities filtered_df) (\<lambda>avg.
     bind (percent_fatalities df filtered_df) (\<lambda>pct.
     bind (q1_top sort_values filtered_df) (\<lambda>s1.
     bind (bind (top_counts sort_values ''Aircraft'' 6 filtered_df)
             (set_columns [''Aircraft'', ''Crashes''])) (\<lambda>s2.
     bind (bind (top_counts sort_values ''Operator'' 5 filtered_df)
             (set_columns [''Operator'', ''Crashes''])) (\<lambda>s3.
     bind (if ''Year'' \<in> set (columns filtered_df)
           then bind (q4_shown sort_values filtered_df) (\<lambda>t. Inr (Some t))
           else Inr None) (\<lambda>s4.
     bind (q5 sort_values filtered_df) (\<lambda>s5.
     bind (q6 sort_values filtered_df) (\<lambda>s6.
     bind (if ''Month'' \<in> set (columns filtered_df)
           then bind (q10 sort_values filtered_df) (\<lambda>t. Inr (Some t))
           else Inr None) (\<lambda>s10.
     Inr \<lparr>shown_filters = fs,
          shown_total_crashes = total_crashes filtered_df,
          shown_total_fatalities = tf,
          shown_total_aboard = ta,
          shown_avg_fatalities = avg,
          shown_percent_fatalities = pct,
          shown_q1 = s1, shown_q2 = s2, shown_q3 = s3, shown_q4 = s4,
          shown_q5 = s5, shown_q6 = s6, shown_q10 = s10\<rparr>)))))))))))"

definition page :: "env \<Rightarrow> dataframe \<Rightarrow> error + dashboard" where
  "page e df =
     bind (filters df) (\<lambda>fs.
     bind (apply_filters (select_filters (ui_multiselect e) fs) df) (\<lambda>filtered_df.
     compute_views (lib_sort_values e) fs df filtered_df))"

text \<open>
  A statement behaves as a computation on values: in every store where the variables
  \<open>df\<close> and \<open>filtered_df\<close> hold the tables \<open>d\<close> and \<open>v\<close>, it raises when the computation
  does, and otherwise returns the computed value and leaves the store as it was, with new
  objects after it.
\<close>

definition behaves :: "nat \<Rightarrow> nat \<Rightarrow> dataframe \<Rightarrow> dataframe \<Rightarrow> 'a prog \<Rightarrow> error + 'a \<Rightarrow> bool" where
  "behaves df filtered_df d v m F \<longleftrightarrow>
     (\<forall>h. df < length h \<and> filtered_df < length h \<and> h ! df = d \<and> h ! filtered_df = v \<longrightarrow>
        (case F of Inl e \<Rightarrow> m h = Inl e | Inr x \<Rightarrow> (\<exists>zs. m h = Inr (x, h @ zs))))"

subsection \<open>Properties of rows, selections, sorts and source tables\<close>

text \<open>A row passes a selection: in every dimension with picked values, its cell is one of them.\<close>

definition matches_selection :: "(string \<times> cell list) list \<Rightarrow> row \<Rightarrow> bool" where
  "matches_selection sel r \<longleftrightarrow> list_all (\<lambda>(key, vals). vals = [] \<or> r key \<in> set vals) sel"

text \<open>Every dimension with picked values is a column of the table.\<close>

definition selection_on_columns :: "(string \<times> cell list) list \<Rightarrow> dataframe \<Rightarrow> bool" where
  "selection_on_columns sel df \<longleftrightarrow>
     list_all (\<lambda>(key, vals). vals = [] \<or> key \<in> set (columns df)) sel"

text \<open>The widget returns picked options only.\<close>

definition picks_from_options :: "(string \<Rightarrow> cell list \<Rightarrow> cell list) \<Rightarrow> bool" where
  "picks_from_options multiselect \<longleftrightarrow> (\<forall>key options. set (multiselect key options) \<subseteq> set options)"

text \<open>The fatalities of a row are its two fatality cells added, a missing one taken as 0.\<close>

definition fatalities_sum :: "row \<Rightarrow> bool" where
  "fatalities_sum r \<longleftrightarrow>
     add_cell (fillna_cell (Num 0) (r ''Air'')) (fillna_cell (Num 0) (r ''Ground''))
       = Inr (r ''Fatalities'')"

definition keeps :: "string set \<Rightarrow> row \<Rightarrow> row \<Rightarrow> bool" where
  "keeps S r r' \<longleftrightarrow> (\<forall>k. k \<notin> S \<longrightarrow> r' k = r k)"

fun numeric :: "cell \<Rightarrow> bool" where
  "numeric NaN = True"
| "numeric (Num a) = True"
| "numeric _ = False"


text \<open>
  What the library promises of \<open>sort_values\<close> on one table: the same columns, the same
  rows, in the order asked for by the cells of the label. Nothing on rows with equal cells.
\<close>

definition sort_spec :: "sorter \<Rightarrow> string \<Rightarrow> bool \<Rightarrow> dataframe \<Rightarrow> bool" where
  "sort_spec sort_values by ascending df \<longleftrightarrow>
     columns (sort_values by ascending df) = columns df \<and>
     mset (rows (sort_values by ascending df)) = mset (rows df) \<and>
     sorted_wrt (\<lambda>a b. if ascending then cell_rank (a by) \<le> cell_rank (b by)
                        else cell_rank (b by) \<le> cell_rank (a by))
       (rows (sort_values by ascending df))"

definition sorts :: "sorter \<Rightarrow> bool" where
  "sorts sort_values \<longleftrightarrow> (\<forall>by ascending df. sort_spec sort_values by ascending df)"

text \<open>
  Two sorts that keep this promise. The first keeps rows with equal cells in their order
  (a stable sort, in both directions); the second sorts ascending and reverses the
  result for the descending direction, so rows with equal cells come out reversed.
\<close>

definition stable_sort_values :: sorter where
  "stable_sort_values by ascending df =
     \<lparr>columns = columns df,
      rows = (if ascending then sort_key (\<lambda>r. cell_rank (r by)) (rows df)
              else rev (sort_key (\<lambda>r. cell_rank (r by)) (rev (rows df))))\<rparr>"


text \<open>
  A source table the script is written for: the columns it reads without a guard are
  there, the air fatalities are not given twice, and the cells it adds up are numbers
  or missing.
\<close>

definition readable :: "dataframe \<Rightarrow> bool" where
  "readable csv \<longleftrightarrow>
     list_all (\<lambda>c. c \<in> set (columns csv))
       [''Country/Region'', ''Operator'', ''Aircraft'', ''Location'', ''Aboard''] \<and>
     \<not> (''Fatalities (air)'' \<in> set (columns csv) \<and> ''Air'' \<in> set (columns csv)) \<and>
     list_all (\<lambda>r. numeric (r ''Aboard'') \<and>
                    (''Fatalities (air)'' \<notin> set (columns csv) \<or> numeric (r ''Fatalities (air)'')) \<and>
                    (''Ground'' \<notin> set (columns csv) \<or> numeric (r ''Ground'')))
       (rows csv)"

text \<open>The table of an error-or-table, empty on an error.\<close>

definition loaded :: "error + dataframe \<Rightarrow> dataframe" where
  "loaded m = (case m of Inr df \<Rightarrow> df | Inl e \<Rightarrow> \<lparr>columns = [], rows = []\<rparr>)"

subsection \<open>Example tables\<close>

definition example_records :: "(string \<times> cell) list list" where
  "example_records =
     [[(''Country/Region'', Str ''US''), (''Operator'', Str ''Delta''),
       (''Aircraft'', Str ''B737''), (''Location'', Str ''Boston''),
       (''Fatalities (air)'', Num 2), (''Ground'', Num 0), (''Aboard'', Num 10),
       (''Date'', Str ''2001-05-03'')],
      [(''Country/Region'', Str ''US''), (''Operator'', NaN),
       (''Aircraft'', Str ''B737''), (''Location'', Str ''Denver''),
       (''Fatalities (air)'', Num 1), (''Ground'', Num 1), (''Aboard'', Num 5),
       (''Date'', Str ''2001-07-19'')],
      [(''Country/Region'', Str ''FR''), (''Operator'', Str ''Air France''),
       (''Aircraft'', Str ''A320''), (''Location'', NaN),
       (''Fatalities (air)'', NaN), (''Ground'', Num 0), (''Aboard'', Num 8),
       (''Date'', Str ''1999-01-30'')],
      [(''Country/Region'', Str ''DE''), (''Operator'', Str ''Lufthansa''),
       (''Aircraft'', Str ''A320''), (''Location'', Str ''Berlin''),
       (''Fatalities (air)'', Num 0), (''Ground'', NaN), (''Aboard'', NaN),
       (''Date'', Str ''unknown'')]]"

definition example_csv :: dataframe where
  "example_csv =
     \<lparr>columns = [''Country/Region'', ''Operator'', ''Aircraft'', ''Location'',
                 ''Fatalities (air)'', ''Ground'', ''Aboard'', ''Date''],
      rows = map mk_row example_records\<rparr>"

text \<open>The same records without the date column.\<close>

definition example_undated_csv :: dataframe where
  "example_undated_csv =
     \<lparr>columns = [''Country/Region'', ''Operator'', ''Aircraft'', ''Location'',
                 ''Fatalities (air)'', ''Ground'', ''Aboard''],
      rows = map mk_row example_records\<rparr>"

text \<open>
  The same records with no date column and a column \<open>Year\<close> of the source's own, as in
  the published aircrash table.
\<close>

definition example_year_csv :: dataframe where
  "example_year_csv =
     \<lparr>columns = [''Year'', ''Country/Region'', ''Operator'', ''Aircraft'', ''Location'',
                 ''Fatalities (air)'', ''Ground'', ''Aboard''],
      rows = map (\<lambda>(y, kvs). mk_row ((''Year'', y) # kvs))
               (zip [Num 2001, Num 2001, Num 1999, NaN] example_records)\<rparr>"

text \<open>The same records with neither fatality column.\<close>

definition example_bare_csv :: dataframe where
  "example_bare_csv =
     \<lparr>columns = [''Country/Region'', ''Operator'', ''Aircraft'', ''Location'', ''Aboard''],
      rows = map mk_row example_records\<rparr>"

definition example_parser :: "cell list \<Rightarrow> cell \<Rightarrow> timestamp option" where
  "example_parser xs c =
     map_of [(Str ''2001-05-03'', Timestamp 2001 May),
             (Str ''2001-07-19'', Timestamp 2001 July),
             (Str ''1999-01-30'', Timestamp 1999 January)] c"

text \<open>A user who picks, in each dimension, the wanted values that are among the options.\<close>

definition pick :: "(string \<times> cell list) list \<Rightarrow> string \<Rightarrow> cell list \<Rightarrow> cell list" where
  "pick wanted key options =
     (case map_of wanted key of None \<Rightarrow> [] | Some vals \<Rightarrow> filter (\<lambda>c. c \<in> set vals) options)"

definition example_env :: "(string \<times> cell list) list \<Rightarrow> env" where
  "example_env wanted =
     \<lparr>lib_to_datetime = example_parser,
      lib_sort_values = stable_sort_values,
      ui_multiselect = pick wanted\<rparr>"

definition example_df :: dataframe where
  "example_df = loaded (load_data example_parser example_csv)"

text \<open>The view of the example with the country US picked.\<close>

definition example_selection :: "(string \<times> cell list) list" where
  "example_selection =
     [(''Country/Region'', [Str ''US'']), (''Aircraft'', []), (''Operator'', []), (''Year'', [])]"

definition example_view :: dataframe where
  "example_view = loaded (apply_filters example_selection example_df)"

section \<open>Lemmas on loading and filtering\<close>

lemma bind_Inr [simp]: "bind (Inr x) f = f x" by (simp add: bind_def)
lemma bind_Inl [simp]: "bind (Inl e) f = Inl e" by (simp add: bind_def)
lemma bind_eq_Inr: "bind m f = Inr y \<longleftrightarrow> (\<exists>x. m = Inr x \<and> f x = Inr y)"
  by (cases m) simp_all

lemma add_series_map:
  "add_series (map f xs) (map g xs) = Inr zs \<Longrightarrow>
   list_all2 (\<lambda>x z. add_cell (f x) (g x) = Inr z) xs zs"
proof (induction xs arbitrary: zs)
  case Nil then show ?case by simp
next
  case (Cons x xs)
  then show ?case by (auto simp: bind_eq_Inr)
qed

lemma setitem_Inr:
  "setitem key vals df = Inr df' \<Longrightarrow>
   length vals = length (rows df) \<and>
   rows df' = map (\<lambda>(r, v). r(key := v)) (zip (rows df) vals) \<and>
   set (columns df') = insert key (set (columns df))"
  by (auto simp: setitem_def split: if_splits)

lemma zip_upd_all2:
  assumes "list_all2 (\<lambda>x z. Q x z) xs zs"
  shows "list_all2 (\<lambda>x y. \<exists>z. Q x z \<and> y = x(key := z)) xs (map (\<lambda>(r, v). r(key := v)) (zip xs zs))"
  using assms by (induction rule: list_all2_induct) auto

lemma load_fatalities_rows:
  assumes "load_fatalities df0 = Inr df3"
  shows "list_all2 (\<lambda>r r'. keeps {''Air'', ''Ground'', ''Fatalities''} r r' \<and> fatalities_sum r'
            \<and> (''Fatalities (air)'' \<in> set (columns df0) \<longrightarrow> r' ''Air'' = r ''Fatalities (air)'')
            \<and> (''Fatalities (air)'' \<notin> set (columns df0) \<longrightarrow> r' ''Air'' = Num 0)
            \<and> (''Ground'' \<in> set (columns df0) \<longrightarrow> r' ''Ground'' = r ''Ground'')
            \<and> (''Ground'' \<notin> set (columns df0) \<longrightarrow> r' ''Ground'' = Num 0))
          (rows df0) (rows df3)"
proof -
  from assms obtain df1 air ground fat where
    d1: "(if ''Fatalities (air)'' \<in> set (columns df0)
           then rename_column ''Fatalities (air)'' ''Air'' df0
           else Inr (setitem_scalar ''Air'' (Num 0) df0)) = Inr df1"
    and a: "getitem (if ''Ground'' \<notin> set (columns df1)
                then setitem_scalar ''Ground'' (Num 0) df1 else df1) ''Air'' = Inr air"
    and g: "getitem (if ''Ground'' \<notin> set (columns df1)
                then setitem_scalar ''Ground'' (Num 0) df1 else df1) ''Ground'' = Inr ground"
    and f: "add_series (fillna_series (Num 0) air) (fillna_series (Num 0) ground) = Inr fat"
    and s: "setitem ''Fatalities'' fat (if ''Ground'' \<notin> set (columns df1)
                then setitem_scalar ''Ground'' (Num 0) df1 else df1) = Inr df3"
    unfolding load_fatalities_def Let_def bind_eq_Inr by blast
  define df2 where "df2 = (if ''Ground'' \<notin> set (columns df1)
                then setitem_scalar ''Ground'' (Num 0) df1 else df1)"
  define h1 :: "row \<Rightarrow> row" where "h1 = (\<lambda>r. if ''Fatalities (air)'' \<in> set (columns df0)
       then r(''Air'' := r ''Fatalities (air)'') else r(''Air'' := Num 0))"
  have r1: "rows df1 = map h1 (rows df0)"
    using d1 by (auto simp: h1_def rename_column_def setitem_scalar_def split: if_splits)
  have c1: "''Ground'' \<in> set (columns df1) \<longleftrightarrow> ''Ground'' \<in> set (columns df0)"
    using d1 by (auto simp: rename_column_def setitem_scalar_def split: if_splits)
  define h2 :: "row \<Rightarrow> row" where "h2 = (\<lambda>r. if ''Ground'' \<notin> set (columns df0)
       then (h1 r)(''Ground'' := Num 0) else h1 r)"
  have r2: "rows df2 = map h2 (rows df0)"
    by (simp add: df2_def h2_def r1 c1 setitem_scalar_def)
  have air: "air = map (\<lambda>r. h2 r ''Air'') (rows df0)"
    and ground: "ground = map (\<lambda>r. h2 r ''Ground'') (rows df0)"
    using a g r2 by (auto simp: getitem_def df2_def[symmetric] split: if_splits)
  have "list_all2 (\<lambda>r z. add_cell (fillna_cell (Num 0) (h2 r ''Air''))
           (fillna_cell (Num 0) (h2 r ''Ground'')) = Inr z) (rows df0) fat"
    using f add_series_map[of "\<lambda>r. fillna_cell (Num 0) (h2 r ''Air'')" "rows df0"
        "\<lambda>r. fillna_cell (Num 0) (h2 r ''Ground'')" fat]
    by (simp add: air ground fillna_series_def comp_def)
  then have "list_all2 (\<lambda>r z. add_cell (fillna_cell (Num 0) (r ''Air''))
           (fillna_cell (Num 0) (r ''Ground'')) = Inr z) (map h2 (rows df0)) fat"
    by (simp add: list_all2_map1)
  from zip_upd_all2[OF this, of "''Fatalities''"]
  have "list_all2 (\<lambda>x y. \<exists>z. add_cell (fillna_cell (Num 0) (x ''Air''))
           (fillna_cell (Num 0) (x ''Ground'')) = Inr z \<and> y = x(''Fatalities'' := z))
         (map h2 (rows df0)) (rows df3)"
    using setitem_Inr[OF s[folded df2_def]] r2 by simp
  then have "list_all2 (\<lambda>r y. \<exists>z. add_cell (fillna_cell (Num 0) (h2 r ''Air''))
           (fillna_cell (Num 0) (h2 r ''Ground'')) = Inr z \<and> y = (h2 r)(''Fatalities'' := z))
         (rows df0) (rows df3)"
    by (simp add: list_all2_map1)
  then show ?thesis
    by (rule list_all2_mono) (auto simp: keeps_def fatalities_sum_def h2_def h1_def)
qed

lemma zip_map_same: "zip xs (map f xs) = map (\<lambda>x. (x, f x)) xs"
  by (induction xs) auto

lemma setitem_map:
  "setitem key (map f (rows df)) df =
     Inr \<lparr>columns = (if key \<in> set (columns df) then columns df else columns df @ [key]),
          rows = map (\<lambda>r. r(key := f r)) (rows df)\<rparr>"
  by (simp add: setitem_def zip_map_same comp_def)

lemma load_dates_Inr:
  "\<exists>df. load_dates to_datetime df3 = Inr df \<and>
     set (columns df) = set (columns df3) \<union>
        (if ''Date'' \<in> set (columns df3) then {''Year'', ''Month''} else {}) \<and>
     list_all2 (\<lambda>r r'. keeps {''Date'', ''Year'', ''Month''} r r' \<and>
        (''Date'' \<in> set (columns df3) \<longrightarrow>
           r' ''Year'' = dt_year (r' ''Date'') \<and> r' ''Month'' = dt_month_name (r' ''Date'')))
       (rows df3) (rows df)"
proof (cases "''Date'' \<in> set (columns df3)")
  case False
  then show ?thesis
    by (simp add: load_dates_def keeps_def list_all2_same)
next
  case True
  define d where "d = map (\<lambda>r. r ''Date'') (rows df3)"
  define g :: "row \<Rightarrow> row" where
    "g = (\<lambda>r. r(''Date'' := (case to_datetime d (r ''Date'') of None \<Rightarrow> NaN | Some t \<Rightarrow> Ts t)))"
  define df4 where "df4 = \<lparr>columns = columns df3, rows = map g (rows df3)\<rparr>"
  have s4: "setitem ''Date'' (pd_to_datetime to_datetime d) df3 = Inr df4"
    using True setitem_map[of "''Date''" "\<lambda>r. case to_datetime d (r ''Date'') of None \<Rightarrow> NaN | Some t \<Rightarrow> Ts t" df3]
    by (simp add: pd_to_datetime_def d_def df4_def g_def comp_def)
  define df5 where "df5 = \<lparr>columns = (if ''Year'' \<in> set (columns df4) then columns df4 else columns df4 @ [''Year'']),
          rows = map (\<lambda>r. r(''Year'' := dt_year (r ''Date''))) (rows df4)\<rparr>"
  have s5: "setitem ''Year'' (map dt_year (map (\<lambda>r. r ''Date'') (rows df4))) df4 = Inr df5"
    using setitem_map[of "''Year''" "\<lambda>r. dt_year (r ''Date'')" df4]
    by (simp add: df5_def comp_def)
  define df6 where "df6 = \<lparr>columns = (if ''Month'' \<in> set (columns df5) then columns df5 else columns df5 @ [''Month'']),
          rows = map (\<lambda>r. r(''Month'' := dt_month_name (r ''Date''))) (rows df5)\<rparr>"
  have s6: "setitem ''Month'' (map dt_month_name (map (\<lambda>r. r ''Date'') (rows df5))) df5 = Inr df6"
    using setitem_map[of "''Month''" "\<lambda>r. dt_month_name (r ''Date'')" df5]
    by (simp add: df6_def comp_def)
  have c4: "''Date'' \<in> set (columns df4)" and c5: "''Date'' \<in> set (columns df5)"
    using True by (auto simp: df4_def df5_def)
  have ld: "load_dates to_datetime df3 = Inr df6"
    using True s4 s5 s6 c4 c5 by (simp add: load_dates_def getitem_def d_def)
  have cols: "set (columns df6) = set (columns df3) \<union> {''Year'', ''Month''}"
    by (auto simp: df6_def df5_def df4_def)
  have rws: "rows df6 = map (\<lambda>r. (((g r)(''Year'' := dt_year (g r ''Date'')))
                 (''Month'' := dt_month_name (g r ''Date'')))) (rows df3)"
    by (simp add: df6_def df5_def df4_def comp_def)
  have "list_all2 (\<lambda>r r'. keeps {''Date'', ''Year'', ''Month''} r r' \<and>
           r' ''Year'' = dt_year (r' ''Date'') \<and> r' ''Month'' = dt_month_name (r' ''Date''))
       (rows df3) (rows df6)"
    unfolding rws by (simp add: list_all2_map2 list_all2_same keeps_def g_def)
  with ld cols True show ?thesis by auto
qed

lemma add_series_numeric:
  "\<forall>x \<in> set xs. numeric (f x) \<and> numeric (g x) \<Longrightarrow>
   \<exists>zs. add_series (map (\<lambda>x. fillna_cell (Num 0) (f x)) xs)
                    (map (\<lambda>x. fillna_cell (Num 0) (g x)) xs) = Inr zs"
proof (induction xs)
  case Nil then show ?case by simp
next
  case (Cons x xs)
  then obtain zs where "add_series (map (\<lambda>x. fillna_cell (Num 0) (f x)) xs)
                    (map (\<lambda>x. fillna_cell (Num 0) (g x)) xs) = Inr zs" by auto
  moreover have "\<exists>c. add_cell (fillna_cell (Num 0) (f x)) (fillna_cell (Num 0) (g x)) = Inr c"
    using Cons.prems by (cases "f x"; cases "g x") (auto simp: fillna_cell_def)
  ultimately show ?case by auto
qed

lemma apply_filters_iff:
  "apply_filters sel df = Inr fdf \<longleftrightarrow>
     selection_on_columns sel df \<and>
     fdf = \<lparr>columns = columns df, rows = filter (matches_selection sel) (rows df)\<rparr>"
proof (induction sel arbitrary: df)
  case Nil
  then show ?case by (auto simp: matches_selection_def selection_on_columns_def)
next
  case (Cons a sel)
  obtain key vals where a: "a = (key, vals)" by (cases a)
  show ?case
  proof (cases "vals = []")
    case True
    then show ?thesis using Cons.IH[of df]
      by (simp add: a matches_selection_def selection_on_columns_def)
  next
    case False
    show ?thesis
    proof (cases "key \<in> set (columns df)")
      case True
      have "isin_rows key vals df = Inr \<lparr>columns = columns df, rows = filter (\<lambda>r. r key \<in> set vals) (rows df)\<rparr>"
        using True by (simp add: isin_rows_def getitem_def)
      then show ?thesis
        using False True Cons.IH[of "\<lparr>columns = columns df, rows = filter (\<lambda>r. r key \<in> set vals) (rows df)\<rparr>"]
        by (auto simp: a matches_selection_def selection_on_columns_def conj_commute intro!: filter_cong)
    next
      case False
      then show ?thesis using \<open>vals \<noteq> []\<close>
        by (simp add: a isin_rows_def getitem_def selection_on_columns_def)
    qed
  qed
qed


lemma load_data_rows:
  assumes "load_data to_datetime csv = Inr df"
  shows "list_all2 (\<lambda>r r'. keeps {''Air'', ''Ground'', ''Fatalities'', ''Date'', ''Year'', ''Month''}
              (fillna_row unspecified (columns csv) r) r' \<and> fatalities_sum r'
            \<and> (''Fatalities (air)'' \<notin> set (columns csv) \<longrightarrow> r' ''Air'' = Num 0)
            \<and> (''Ground'' \<notin> set (columns csv) \<longrightarrow> r' ''Ground'' = Num 0))
          (rows csv) (rows df)"
proof -
  from assms obtain df3 where l3: "load_fatalities (fillna unspecified csv) = Inr df3"
    and l: "load_dates to_datetime df3 = Inr df"
    by (auto simp: load_data_def bind_eq_Inr)
  from load_dates_Inr[of to_datetime df3] l
  have k: "list_all2 (keeps {''Date'', ''Year'', ''Month''}) (rows df3) (rows df)"
    by (auto elim: list_all2_mono)
  have "list_all2 (\<lambda>r r'. keeps {''Air'', ''Ground'', ''Fatalities''} r r' \<and> fatalities_sum r'
            \<and> (''Fatalities (air)'' \<notin> set (columns csv) \<longrightarrow> r' ''Air'' = Num 0)
            \<and> (''Ground'' \<notin> set (columns csv) \<longrightarrow> r' ''Ground'' = Num 0))
          (map (fillna_row unspecified (columns csv)) (rows csv)) (rows df3)"
    using load_fatalities_rows[OF l3] by (auto simp: fillna_def elim: list_all2_mono)
  then have "list_all2 (\<lambda>r r'. keeps {''Air'', ''Ground'', ''Fatalities''} (fillna_row unspecified (columns csv) r) r' \<and> fatalities_sum r'
            \<and> (''Fatalities (air)'' \<notin> set (columns csv) \<longrightarrow> r' ''Air'' = Num 0)
            \<and> (''Ground'' \<notin> set (columns csv) \<longrightarrow> r' ''Ground'' = Num 0))
          (rows csv) (rows df3)"
    by (simp add: list_all2_map1)
  from list_all2_trans[where ?P1.0 = "\<lambda>r r'. keeps {''Air'', ''Ground'', ''Fatalities''} (fillna_row unspecified (columns csv) r) r' \<and> fatalities_sum r'
            \<and> (''Fatalities (air)'' \<notin> set (columns csv) \<longrightarrow> r' ''Air'' = Num 0)
            \<and> (''Ground'' \<notin> set (columns csv) \<longrightarrow> r' ''Ground'' = Num 0)"
       and ?P2.0 = "keeps {''Date'', ''Year'', ''Month''}", OF _ this k,
       of "\<lambda>r r'. keeps {''Air'', ''Ground'', ''Fatalities'', ''Date'', ''Year'', ''Month''}
              (fillna_row unspecified (columns csv) r) r' \<and> fatalities_sum r'
            \<and> (''Fatalities (air)'' \<notin> set (columns csv) \<longrightarrow> r' ''Air'' = Num 0)
            \<and> (''Ground'' \<notin> set (columns csv) \<longrightarrow> r' ''Ground'' = Num 0)"]
  show ?thesis
    by (auto simp: keeps_def fatalities_sum_def)
qed

lemma unique_rev_remdups: "unique xs = rev (remdups (rev xs))"
proof (induction xs rule: unique.induct)
  case 1 show ?case by simp
next
  case (2 x xs)
  have "remdups (ys @ [x]) = remdups (filter (\<lambda>y. y \<noteq> x) ys) @ [x]" for ys
    by (induction ys) auto
  then show ?case using 2 by (simp add: rev_filter)
qed





lemmas example_simps =
  load_data_def load_fatalities_def load_dates_def fillna_def fillna_row_def
  unspecified_def rename_column_def setitem_scalar_def setitem_def getitem_def
  fillna_series_def fillna_cell_def pd_to_datetime_def
  example_csv_def example_undated_csv_def example_year_csv_def example_bare_csv_def
  example_records_def example_parser_def mk_row_def loaded_def example_df_def

lemma example_load: "load_data example_parser example_csv = Inr example_df"
  by (simp add: example_simps)

lemma example_df_columns:
  "columns example_df =
     [''Country/Region'', ''Operator'', ''Aircraft'', ''Location'', ''Air'', ''Ground'',
      ''Aboard'', ''Date'', ''Fatalities'', ''Year'', ''Month'']"
  by (simp add: example_simps)

lemma example_df_cells:
  "map (\<lambda>r. [r ''Country/Region'', r ''Operator'', r ''Aircraft'', r ''Location'',
              r ''Air'', r ''Ground'', r ''Aboard'', r ''Fatalities'', r ''Year'', r ''Month''])
       (rows example_df) =
     [[Str ''US'', Str ''Delta'', Str ''B737'', Str ''Boston'',
       Num 2, Num 0, Num 10, Num 2, Num 2001, Str ''May''],
      [Str ''US'', Str ''Unspecified'', Str ''B737'', Str ''Denver'',
       Num 1, Num 1, Num 5, Num 2, Num 2001, Str ''July''],
      [Str ''FR'', Str ''Air France'', Str ''A320'', Str ''Unspecified'',
       NaN, Num 0, Num 8, Num 0, Num 1999, Str ''January''],
      [Str ''DE'', Str ''Lufthansa'', Str ''A320'', Str ''Berlin'',
       Num 0, NaN, NaN, Num 0, NaN, NaN]]"
  by (simp add: example_simps)


lemma unique_set [simp]: "set (unique xs) = set xs"
  by (simp add: unique_rev_remdups)

lemma unique_distinct [simp]: "distinct (unique xs)"
  by (simp add: unique_rev_remdups)

lemma filters_Inr:
  assumes "list_all (\<lambda>c. c \<in> set (columns df)) [''Country/Region'', ''Aircraft'', ''Operator'']"
  shows "filters df =
      Inr [(''Country/Region'', unique (map (\<lambda>r. r ''Country/Region'') (rows df))),
           (''Aircraft'', unique (map (\<lambda>r. r ''Aircraft'') (rows df))),
           (''Operator'', unique (map (\<lambda>r. r ''Operator'') (rows df))),
           (''Year'', if ''Year'' \<in> set (columns df)
                      then unique (dropna (map (\<lambda>r. r ''Year'') (rows df))) else [])]"
  using assms by (simp add: filters_def getitem_def)

lemma loaded_eq: "m = Inr x \<Longrightarrow> m = Inr (loaded m)"
  by (simp add: loaded_def)

lemma apply_filters_Inr:
  "selection_on_columns sel df \<Longrightarrow>
   apply_filters sel df = Inr \<lparr>columns = columns df, rows = filter (matches_selection sel) (rows df)\<rparr>"
  by (simp add: apply_filters_iff)

section \<open>The claims\<close>



lemma example_filter: "apply_filters example_selection example_df = Inr example_view"
  unfolding example_view_def
  by (rule loaded_eq, rule apply_filters_Inr)
     (simp add: selection_on_columns_def example_df_columns example_selection_def)

lemma example_view_eq:
  "example_view =
     \<lparr>columns = columns example_df,
      rows = filter (matches_selection example_selection) (rows example_df)\<rparr>"
  using example_filter unfolding apply_filters_iff by (rule conjunct2)


lemma example_view_rows:
  "rows example_view = filter (matches_selection example_selection) (rows example_df)"
  by (subst example_view_eq) simp

lemma example_view_cells:
  "map (\<lambda>r. [r ''Country/Region'', r ''Operator'', r ''Aircraft'', r ''Location'',
              r ''Air'', r ''Ground'', r ''Aboard'', r ''Fatalities'', r ''Year'', r ''Month''])
       (rows example_view) =
     [[Str ''US'', Str ''Delta'', Str ''B737'', Str ''Boston'',
       Num 2, Num 0, Num 10, Num 2, Num 2001, Str ''May''],
      [Str ''US'', Str ''Unspecified'', Str ''B737'', Str ''Denver'',
       Num 1, Num 1, Num 5, Num 2, Num 2001, Str ''July'']]"
  unfolding example_view_rows
  by (simp add: example_simps matches_selection_def example_selection_def)



lemma keepsD: "keeps S r r' \<Longrightarrow> k \<notin> S \<Longrightarrow> r' k = r k"
  by (simp add: keeps_def)



lemma example_bare_load:
  "load_data example_parser example_bare_csv = Inr (loaded (load_data example_parser example_bare_csv))"
  by (rule loaded_eq[of _ "loaded (load_data example_parser example_bare_csv)"])
     (simp add: example_simps)


text \<open>
  C6. After \<open>load_data\<close>, in each of the four categorical columns of the source, the cell
  of every record is the source's cell when that is present and exactly the string
  \<open>Unspecified\<close> when it is missing; so it is never missing.
\<close>

theorem missing_category_is_Unspecified:
  assumes "load_data to_datetime csv = Inr df"
    and "key \<in> set [''Country/Region'', ''Operator'', ''Aircraft'', ''Location'']"
    and "key \<in> set (columns csv)"
  shows "list_all2 (\<lambda>r r'. r' key = (if r key = NaN then Str ''Unspecified'' else r key) \<and>
                             r' key \<noteq> NaN)
           (rows csv) (rows df)"
proof -
  have k: "key \<notin> {''Air'', ''Ground'', ''Fatalities'', ''Date'', ''Year'', ''Month''}"
    using assms(2) by auto
  have f: "fillna_row unspecified (columns csv) r key =
             (if r key = NaN then Str ''Unspecified'' else r key)" for r
    using assms(2,3) by (auto simp: fillna_row_def unspecified_def)
  show ?thesis
    using load_data_rows[OF assms(1)]
  proof (rule list_all2_mono)
    fix r r'
    assume "keeps {''Air'', ''Ground'', ''Fatalities'', ''Date'', ''Year'', ''Month''}
              (fillna_row unspecified (columns csv) r) r' \<and> fatalities_sum r'
            \<and> (''Fatalities (air)'' \<notin> set (columns csv) \<longrightarrow> r' ''Air'' = Num 0)
            \<and> (''Ground'' \<notin> set (columns csv) \<longrightarrow> r' ''Ground'' = Num 0)"
    then have "r' key = fillna_row unspecified (columns csv) r key"
      using keepsD[OF _ k] by blast
    then show "r' key = (if r key = NaN then Str ''Unspecified'' else r key) \<and> r' key \<noteq> NaN"
      by (simp add: f)
  qed
qed

theorem missing_category_is_Unspecified_witness:
  "load_data example_parser example_csv = Inr example_df \<and>
   ''Operator'' \<in> set [''Country/Region'', ''Operator'', ''Aircraft'', ''Location''] \<and>
   ''Operator'' \<in> set (columns example_csv) \<and>
   map (\<lambda>r. r ''Operator'') (rows example_csv)
     = [Str ''Delta'', NaN, Str ''Air France'', Str ''Lufthansa''] \<and>
   map (\<lambda>r. r ''Operator'') (rows example_df)
     = [Str ''Delta'', Str ''Unspecified'', Str ''Air France'', Str ''Lufthansa''] \<and>
   list_all2 (\<lambda>r r'. r' ''Operator'' = (if r ''Operator'' = NaN then Str ''Unspecified''
                                          else r ''Operator'') \<and> r' ''Operator'' \<noteq> NaN)
     (rows example_csv) (rows example_df)"
proof -
  have m: "''Operator'' \<in> set [''Country/Region'', ''Operator'', ''Aircraft'', ''Location'']"
    by simp
  have c: "''Operator'' \<in> set (columns example_csv)"
    by (simp add: example_csv_def)
  have s: "map (\<lambda>r. r ''Operator'') (rows example_csv)
     = [Str ''Delta'', NaN, Str ''Air France'', Str ''Lufthansa'']"
    by (simp add: example_csv_def example_records_def mk_row_def)
  have d: "map (\<lambda>r. r ''Operator'') (rows example_df)
     = [Str ''Delta'', Str ''Unspecified'', Str ''Air France'', Str ''Lufthansa'']"
    using arg_cong[OF example_df_cells, of "map (\<lambda>cs. cs ! 1)"] by (simp add: comp_def)
  from missing_category_is_Unspecified[OF example_load m c] example_load m c s d
  show ?thesis by simp
qed

text \<open>
  C3. For a selection whose dimensions with picked values are columns, \<open>apply_filters\<close>
  returns the table with exactly the records that, in every dimension with picked values,
  hold one of them (all dimensions must agree, any picked value of a dimension will do);
  a dimension with nothing picked does not constrain. The records come in the order of
  the table, and with nothing picked anywhere the result is the table itself.
\<close>

theorem apply_filters_retains_selected:
  assumes "selection_on_columns sel df"
  shows "apply_filters sel df =
           Inr (df\<lparr>rows := filter (\<lambda>r. list_all (\<lambda>(key, vals). vals = [] \<or> r key \<in> set vals) sel)
                                (rows df)\<rparr>) \<and>
         subseq (rows (loaded (apply_filters sel df))) (rows df) \<and>
         (list_all (\<lambda>(key, vals). vals = []) sel \<longrightarrow> apply_filters sel df = Inr df)"
proof -
  have e: "apply_filters sel df =
      Inr \<lparr>columns = columns df, rows = filter (matches_selection sel) (rows df)\<rparr>"
    by (rule apply_filters_Inr[OF assms])
  have m: "matches_selection sel = (\<lambda>r. list_all (\<lambda>(key, vals). vals = [] \<or> r key \<in> set vals) sel)"
    by (rule ext) (simp add: matches_selection_def)
  have 1: "apply_filters sel df =
           Inr (df\<lparr>rows := filter (\<lambda>r. list_all (\<lambda>(key, vals). vals = [] \<or> r key \<in> set vals) sel)
                                (rows df)\<rparr>)"
    unfolding e m by simp
  have 2: "subseq (rows (loaded (apply_filters sel df))) (rows df)"
    unfolding e by (simp add: loaded_def)
  have 3: "apply_filters sel df = Inr df" if "list_all (\<lambda>(key, vals). vals = []) sel"
  proof -
    have "matches_selection sel r" for r
      using that by (auto simp: matches_selection_def list_all_iff)
    then show ?thesis unfolding e by simp
  qed
  from 1 2 3 show ?thesis by blast
qed

theorem apply_filters_retains_selected_witness:
  "selection_on_columns example_selection example_df \<and>
   apply_filters example_selection example_df = Inr example_view \<and>
   map (\<lambda>r. (r ''Country/Region'', r ''Location'')) (rows example_df)
     = [(Str ''US'', Str ''Boston''), (Str ''US'', Str ''Denver''),
        (Str ''FR'', Str ''Unspecified''), (Str ''DE'', Str ''Berlin'')] \<and>
   map (\<lambda>r. (r ''Country/Region'', r ''Location'')) (rows example_view)
     = [(Str ''US'', Str ''Boston''), (Str ''US'', Str ''Denver'')] \<and>
   subseq (rows example_view) (rows example_df)"
proof -
  have s: "selection_on_columns example_selection example_df"
    by (simp add: selection_on_columns_def example_df_columns example_selection_def)
  have c1: "map (\<lambda>r. (r ''Country/Region'', r ''Location'')) (rows example_df)
     = [(Str ''US'', Str ''Boston''), (Str ''US'', Str ''Denver''),
        (Str ''FR'', Str ''Unspecified''), (Str ''DE'', Str ''Berlin'')]"
    using arg_cong[OF example_df_cells, of "map (\<lambda>cs. (cs ! 0, cs ! 3))"]
    by (simp add: comp_def)
  have c2: "map (\<lambda>r. (r ''Country/Region'', r ''Location'')) (rows example_view)
     = [(Str ''US'', Str ''Boston''), (Str ''US'', Str ''Denver'')]"
    using arg_cong[OF example_view_cells, of "map (\<lambda>cs. (cs ! 0, cs ! 3))"]
    by (simp add: comp_def)
  from apply_filters_retains_selected[OF s]
  have "subseq (rows (loaded (apply_filters example_selection example_df))) (rows example_df)"
    by blast
  then have "subseq (rows example_view) (rows example_df)"
    by (simp only: example_view_def)
  with s example_filter c1 c2 show ?thesis by simp
qed

text \<open>
  C8. \<open>apply_filters\<close> is idempotent: applying a selection to the view it produced returns
  that view again. This holds for every selection, and so for every non-empty one.
\<close>

theorem apply_filters_idempotent:
  assumes "apply_filters sel df = Inr filtered_df"
  shows "apply_filters sel filtered_df = Inr filtered_df"
proof -
  from assms have s: "selection_on_columns sel df"
    and e: "filtered_df = \<lparr>columns = columns df, rows = filter (matches_selection sel) (rows df)\<rparr>"
    by (simp_all add: apply_filters_iff)
  have c: "columns filtered_df = columns df"
    and r: "rows filtered_df = filter (matches_selection sel) (rows df)"
    by (simp_all add: e)
  have "selection_on_columns sel filtered_df"
    using s by (simp add: selection_on_columns_def c)
  from apply_filters_Inr[OF this] show ?thesis
    unfolding c r by (simp add: e)
qed

theorem apply_filters_idempotent_witness:
  "apply_filters example_selection example_df = Inr example_view \<and>
   apply_filters example_selection example_view = Inr example_view \<and>
   length (rows example_df) = 4 \<and> length (rows example_view) = 2"
proof -
  have l1: "length (rows example_df) = 4"
    using arg_cong[OF example_df_cells, of length] by simp
  have l2: "length (rows example_view) = 2"
    using arg_cong[OF example_view_cells, of length] by simp
  from apply_filters_idempotent[OF example_filter] example_filter l1 l2
  show ?thesis by simp
qed

text \<open>
  C5, as amended. When the three categorical dimensions are columns, \<open>filters\<close> maps each of
  the four dimensions to the distinct values of its column in the full table, in the order
  of their first appearance (they are not sorted); the options of \<open>Year\<close> are the distinct
  values that are present, and there are none when the table has no such column.
\<close>

theorem filters_distinct_in_order_of_appearance:
  assumes "list_all (\<lambda>c. c \<in> set (columns df)) [''Country/Region'', ''Aircraft'', ''Operator'']"
  shows "filters df =
      Inr [(''Country/Region'', rev (remdups (rev (map (\<lambda>r. r ''Country/Region'') (rows df))))),
           (''Aircraft'', rev (remdups (rev (map (\<lambda>r. r ''Aircraft'') (rows df))))),
           (''Operator'', rev (remdups (rev (map (\<lambda>r. r ''Operator'') (rows df))))),
           (''Year'', if ''Year'' \<in> set (columns df)
                      then rev (remdups (rev (filter (\<lambda>c. c \<noteq> NaN)
                                 (map (\<lambda>r. r ''Year'') (rows df)))))
                      else [])] \<and>
    (case filters df of
       Inl e \<Rightarrow> False
     | Inr fs \<Rightarrow>
         list_all (\<lambda>(key, options). distinct options \<and>
                     (if key \<in> set (columns df)
                      then set options = set (map (\<lambda>r. r key) (rows df))
                                          - (if key = ''Year'' then {NaN} else {})
                      else options = [])) fs)"
  using assms
  by (simp add: filters_Inr unique_rev_remdups dropna_def) auto

theorem filters_distinct_in_order_of_appearance_witness:
  "list_all (\<lambda>c. c \<in> set (columns example_df)) [''Country/Region'', ''Aircraft'', ''Operator''] \<and>
   filters example_df =
      Inr [(''Country/Region'', [Str ''US'', Str ''FR'', Str ''DE'']),
           (''Aircraft'', [Str ''B737'', Str ''A320'']),
           (''Operator'', [Str ''Delta'', Str ''Unspecified'', Str ''Air France'', Str ''Lufthansa'']),
           (''Year'', [Num 2001, Num 1999])]"
proof -
  have h: "list_all (\<lambda>c. c \<in> set (columns example_df)) [''Country/Region'', ''Aircraft'', ''Operator'']"
    by (simp add: example_df_columns)
  have y: "''Year'' \<in> set (columns example_df)"
    by (simp add: example_df_columns)
  have c: "map (\<lambda>r. r ''Country/Region'') (rows example_df) = [Str ''US'', Str ''US'', Str ''FR'', Str ''DE'']"
    using arg_cong[OF example_df_cells, of "map (\<lambda>cs. cs ! 0)"] by (simp add: comp_def)
  have a: "map (\<lambda>r. r ''Aircraft'') (rows example_df) = [Str ''B737'', Str ''B737'', Str ''A320'', Str ''A320'']"
    using arg_cong[OF example_df_cells, of "map (\<lambda>cs. cs ! 2)"] by (simp add: comp_def)
  have p: "map (\<lambda>r. r ''Operator'') (rows example_df)
     = [Str ''Delta'', Str ''Unspecified'', Str ''Air France'', Str ''Lufthansa'']"
    using arg_cong[OF example_df_cells, of "map (\<lambda>cs. cs ! 1)"] by (simp add: comp_def)
  have yr: "map (\<lambda>r. r ''Year'') (rows example_df) = [Num 2001, Num 2001, Num 1999, NaN]"
    using arg_cong[OF example_df_cells, of "map (\<lambda>cs. cs ! 8)"] by (simp add: comp_def)
  from filters_distinct_in_order_of_appearance[OF h]
  have "filters example_df =
      Inr [(''Country/Region'', [Str ''US'', Str ''FR'', Str ''DE'']),
           (''Aircraft'', [Str ''B737'', Str ''A320'']),
           (''Operator'', [Str ''Delta'', Str ''Unspecified'', Str ''Air France'', Str ''Lufthansa'']),
           (''Year'', [Num 2001, Num 1999])]"
    unfolding c a p yr using y by simp
  with h show ?thesis by simp
qed

text \<open>
  C5 as stated asks for sorted options. The options of the example are in the order of
  the records: US before FR before DE, and 2001 before 1999.
\<close>

theorem filters_sorted_counterexample:
  "map_of (case filters example_df of Inr fs \<Rightarrow> fs | Inl e \<Rightarrow> []) ''Country/Region''
     = Some [Str ''US'', Str ''FR'', Str ''DE''] \<and>
   \<not> sorted (map cell_rank [Str ''US'', Str ''FR'', Str ''DE'']) \<and>
   map_of (case filters example_df of Inr fs \<Rightarrow> fs | Inl e \<Rightarrow> []) ''Year''
     = Some [Num 2001, Num 1999] \<and>
   \<not> sorted (map cell_rank [Num 2001, Num 1999])"
proof -
  have c: "map (\<lambda>r. r ''Country/Region'') (rows example_df) = [Str ''US'', Str ''US'', Str ''FR'', Str ''DE'']"
    using arg_cong[OF example_df_cells, of "map (\<lambda>cs. cs ! 0)"] by (simp add: comp_def)
  have yr: "map (\<lambda>r. r ''Year'') (rows example_df) = [Num 2001, Num 2001, Num 1999, NaN]"
    using arg_cong[OF example_df_cells, of "map (\<lambda>cs. cs ! 8)"] by (simp add: comp_def)
  have h: "list_all (\<lambda>c. c \<in> set (columns example_df)) [''Country/Region'', ''Aircraft'', ''Operator'']"
    by (simp add: example_df_columns)
  show ?thesis
    unfolding filters_Inr[OF h] c yr
    by (simp add: example_df_columns dropna_def)
qed

section \<open>Lemmas on sorting, grouping and counting\<close>

lemma sorted_wrt_sort_key: "sorted_wrt (\<lambda>a b. f a \<le> f b) (sort_key f xs)"
  using sorted_sort_key[of f xs] by (simp add: sorted_wrt_map)

lemma stable_sort_spec: "sort_spec stable_sort_values by ascending df"
  by (simp add: sort_spec_def stable_sort_values_def sorted_wrt_rev sorted_wrt_sort_key)


lemma sorts_stable: "sorts stable_sort_values"
  by (simp add: sorts_def stable_sort_spec)


lemma sorted_wrt_take_drop:
  assumes "sorted_wrt R xs" and "x \<in> set (take n xs)" and "y \<in> set (drop n xs)"
  shows "R x y"
proof -
  have "sorted_wrt R (take n xs @ drop n xs)" using assms(1) by simp
  then show ?thesis using assms(2,3) unfolding sorted_wrt_append by blast
qed

lemma mk_row_simps [simp]:
  "mk_row [] k = NaN"
  "mk_row ((k', v) # kvs) k = (if k = k' then v else mk_row kvs k)"
  by (auto simp: mk_row_def)








lemma length_filter_count_list: "length (filter (\<lambda>r. f r = k) xs) = count_list (map f xs) k"
  by (induction xs) auto






lemma count_table_rows:
  "r \<in> set (rows (count_table key xs)) \<Longrightarrow> key \<noteq> ''count'' \<Longrightarrow>
   r key \<in> set xs \<and> r key \<noteq> NaN \<and> r ''count'' = Num (of_nat (count_list xs (r key)))"
  by (auto simp: count_table_def dropna_def)

lemma count_table_keys:
  "map (\<lambda>r. r key) (rows (count_table key xs)) = unique (dropna xs)"
  by (simp add: count_table_def comp_def)

lemma set_columns_two:
  assumes "columns df = [a, b]" and "c \<noteq> d"
  shows "set_columns [c, d] df =
           Inr \<lparr>columns = [c, d],
                rows = map (\<lambda>r k. if k = c then r a else if k = d then r b else NaN) (rows df)\<rparr>"
proof -
  have "(\<lambda>r k. case map_of (zip [c, d] (columns df)) k of Some old \<Rightarrow> r old | None \<Rightarrow> NaN)
          = (\<lambda>r k. if k = c then r a else if k = d then r b else NaN)"
    using assms by (intro ext) auto
  then show ?thesis using assms by (simp add: set_columns_def)
qed

lemma q4_shown_steps:
  assumes "''Year'' \<in> set (columns df)" and "sorts sort_values"
  defines "xs \<equiv> map (\<lambda>r. r ''Year'') (rows df)"
  defines "s1 \<equiv> rows (sort_values ''count'' False (count_table ''Year'' xs))"
  defines "t2 \<equiv> \<lparr>columns = [''Year'', ''Crashes''],
                  rows = map (\<lambda>r k. if k = ''Year'' then r ''Year''
                                     else if k = ''Crashes'' then r ''count'' else NaN)
                           (take 10 s1)\<rparr>"
  shows "q4_shown sort_values df = Inr (sort_values ''Year'' True t2)"
    and "mset s1 = mset (rows (count_table ''Year'' xs))"
    and "sorted_wrt (\<lambda>a b. cell_rank (b ''count'') \<le> cell_rank (a ''count'')) s1"
    and "mset (rows (sort_values ''Year'' True t2)) = mset (rows t2)"
    and "sorted (map (\<lambda>r. cell_rank (r ''Year'')) (rows (sort_values ''Year'' True t2)))"
proof -
  from assms(2) have sp1: "sort_spec sort_values ''count'' False (count_table ''Year'' xs)"
    and sp2: "sort_spec sort_values ''Year'' True t2"
    by (simp_all add: sorts_def)
  from sp1 show "mset s1 = mset (rows (count_table ''Year'' xs))"
    and "sorted_wrt (\<lambda>a b. cell_rank (b ''count'') \<le> cell_rank (a ''count'')) s1"
    by (simp_all add: sort_spec_def s1_def)
  from sp2 show "mset (rows (sort_values ''Year'' True t2)) = mset (rows t2)"
    and "sorted (map (\<lambda>r. cell_rank (r ''Year'')) (rows (sort_values ''Year'' True t2)))"
    by (simp_all add: sort_spec_def sorted_wrt_map)
  have c1: "columns (sort_values ''count'' False (count_table ''Year'' xs)) = [''Year'', ''count'']"
    using sp1 by (simp add: sort_spec_def count_table_def)
  have tc: "top_counts sort_values ''Year'' 10 df =
      Inr (head 10 (sort_values ''count'' False (count_table ''Year'' xs)))"
    using assms(1) by (simp add: top_counts_def value_counts_def getitem_def xs_def)
  have sc: "set_columns [''Year'', ''Crashes'']
              (head 10 (sort_values ''count'' False (count_table ''Year'' xs))) = Inr t2"
    by (subst set_columns_two[where a = "''Year''" and b = "''count''"])
       (simp_all add: head_def c1 t2_def s1_def)
  show "q4_shown sort_values df = Inr (sort_values ''Year'' True t2)"
    by (simp add: q4_shown_def tc sc)
qed

text \<open>
  C7. When the view has a column \<open>Year\<close> and the library's sort keeps its promise, the
  table of Q4 that is shown has one row per year, at most 10 of them, each a year present
  in the view (records without a year are not counted) with the number of its records;
  every year left out has no more records than any year shown; and the rows shown are in
  ascending order of the year.
\<close>

theorem q4_top_years_ascending:
  assumes "''Year'' \<in> set (columns filtered_df)" and "sorts sort_values"
  shows "q4_shown sort_values filtered_df = Inr (loaded (q4_shown sort_values filtered_df)) \<and>
    sorted (map (\<lambda>r. cell_rank (r ''Year'')) (rows (loaded (q4_shown sort_values filtered_df)))) \<and>
    distinct (map (\<lambda>r. r ''Year'') (rows (loaded (q4_shown sort_values filtered_df)))) \<and>
    list_all (\<lambda>r. r ''Year'' \<noteq> NaN \<and>
                r ''Year'' \<in> set (map (\<lambda>r'. r' ''Year'') (rows filtered_df)) \<and>
                r ''Crashes'' = Num (of_nat (length (filter (\<lambda>r'. r' ''Year'' = r ''Year'')
                                                      (rows filtered_df)))))
      (rows (loaded (q4_shown sort_values filtered_df))) \<and>
    length (rows (loaded (q4_shown sort_values filtered_df)))
      = min 10 (card (set (map (\<lambda>r'. r' ''Year'') (rows filtered_df)) - {NaN})) \<and>
    (\<forall>y r. y \<in> set (map (\<lambda>r'. r' ''Year'') (rows filtered_df)) \<and> y \<noteq> NaN \<and>
           y \<notin> set (map (\<lambda>r. r ''Year'') (rows (loaded (q4_shown sort_values filtered_df)))) \<and>
           r \<in> set (rows (loaded (q4_shown sort_values filtered_df))) \<longrightarrow>
           length (filter (\<lambda>r'. r' ''Year'' = y) (rows filtered_df))
             \<le> length (filter (\<lambda>r'. r' ''Year'' = r ''Year'') (rows filtered_df)))"
proof -
  define xs where "xs = map (\<lambda>r. r ''Year'') (rows filtered_df)"
  define s1 where "s1 = rows (sort_values ''count'' False (count_table ''Year'' xs))"
  define rl :: "row \<Rightarrow> row" where
    "rl = (\<lambda>r k. if k = ''Year'' then r ''Year''
                  else if k = ''Crashes'' then r ''count'' else NaN)"
  define t2 where "t2 = \<lparr>columns = [''Year'', ''Crashes''], rows = map rl (take 10 s1)\<rparr>"
  define sh where "sh = rows (sort_values ''Year'' True t2)"
  note st = q4_shown_steps[OF assms, folded xs_def, folded s1_def, folded rl_def, folded t2_def]
  have cnt: "count_list xs y = length (filter (\<lambda>r'. r' ''Year'' = y) (rows filtered_df))" for y
    by (simp add: xs_def length_filter_count_list)
  have ok: "q4_shown sort_values filtered_df = Inr (loaded (q4_shown sort_values filtered_df))"
    using st(1) by (rule loaded_eq)
  have ld: "rows (loaded (q4_shown sort_values filtered_df)) = sh"
    by (simp add: st(1) loaded_def sh_def)
  have yc: "''Year'' \<noteq> ''count''" by simp
  \<comment> \<open>the counted rows, sorted by count\<close>
  have s1_set: "set s1 = set (rows (count_table ''Year'' xs))"
    using st(2) by (rule mset_eq_setD)
  have s1_row: "r ''Year'' \<in> set xs \<and> r ''Year'' \<noteq> NaN \<and>
                r ''count'' = Num (of_nat (count_list xs (r ''Year'')))" if "r \<in> set s1" for r
    using count_table_rows[OF _ yc, of r xs] that s1_set by simp
  have "mset (map (\<lambda>r. r ''Year'') s1) = mset (map (\<lambda>r. r ''Year'') (rows (count_table ''Year'' xs)))"
    using st(2) by (metis mset_map)
  then have s1_keys: "mset (map (\<lambda>r. r ''Year'') s1) = mset (unique (dropna xs))"
    by (simp add: count_table_keys)
  have s1_distinct: "distinct (map (\<lambda>r. r ''Year'') s1)"
    using mset_eq_imp_distinct_iff[OF s1_keys] by simp
  have s1_years: "set (map (\<lambda>r. r ''Year'') s1) = set xs - {NaN}"
    using mset_eq_setD[OF s1_keys] by (auto simp: dropna_def)
  have s1_length: "length s1 = card (set xs - {NaN})"
  proof -
    have "length s1 = length (map (\<lambda>r. r ''Year'') s1)" by simp
    also have "\<dots> = card (set (map (\<lambda>r. r ''Year'') s1))"
      using distinct_card[OF s1_distinct] by simp
    finally show ?thesis by (simp only: s1_years)
  qed
  \<comment> \<open>the rows shown\<close>
  have sh_mset: "mset sh = mset (map rl (take 10 s1))"
    using st(4) by (simp add: sh_def t2_def)
  have sh_set: "set sh = rl ` set (take 10 s1)"
    using mset_eq_setD[OF sh_mset] by simp
  have "mset (map (\<lambda>r. r ''Year'') sh) = mset (map (\<lambda>r. r ''Year'') (map rl (take 10 s1)))"
    using sh_mset by (metis mset_map)
  then have sh_keys: "mset (map (\<lambda>r. r ''Year'') sh) = mset (take 10 (map (\<lambda>r. r ''Year'') s1))"
    by (simp add: take_map comp_def rl_def)
  have 2: "sorted (map (\<lambda>r. cell_rank (r ''Year'')) sh)"
    using st(5) by (simp add: sh_def)
  have 3: "distinct (map (\<lambda>r. r ''Year'') sh)"
    using mset_eq_imp_distinct_iff[OF sh_keys] s1_distinct by simp
  have sh_row: "\<exists>r0 \<in> set (take 10 s1). r ''Year'' = r0 ''Year'' \<and> r ''Crashes'' = r0 ''count''"
    if "r \<in> set sh" for r
    using that sh_set by (auto simp: rl_def)
  have 4: "list_all (\<lambda>r. r ''Year'' \<noteq> NaN \<and>
                r ''Year'' \<in> set (map (\<lambda>r'. r' ''Year'') (rows filtered_df)) \<and>
                r ''Crashes'' = Num (of_nat (length (filter (\<lambda>r'. r' ''Year'' = r ''Year'')
                                                      (rows filtered_df))))) sh"
    unfolding list_all_iff
  proof
    fix r assume "r \<in> set sh"
    from sh_row[OF this] obtain r0 where r0: "r0 \<in> set (take 10 s1)"
      and e: "r ''Year'' = r0 ''Year''" "r ''Crashes'' = r0 ''count''" by blast
    from r0 have "r0 \<in> set s1" by (rule in_set_takeD)
    from s1_row[OF this] e show "r ''Year'' \<noteq> NaN \<and>
                r ''Year'' \<in> set (map (\<lambda>r'. r' ''Year'') (rows filtered_df)) \<and>
                r ''Crashes'' = Num (of_nat (length (filter (\<lambda>r'. r' ''Year'' = r ''Year'')
                                                      (rows filtered_df))))"
      by (simp add: cnt xs_def[symmetric])
  qed
  have 5: "length sh = min 10 (card (set (map (\<lambda>r'. r' ''Year'') (rows filtered_df)) - {NaN}))"
  proof -
    have "length sh = length (map rl (take 10 s1))"
      using sh_mset by (rule mset_eq_length)
    then show ?thesis by (simp add: s1_length xs_def min.commute)
  qed
  have 6: "length (filter (\<lambda>r'. r' ''Year'' = y) (rows filtered_df))
             \<le> length (filter (\<lambda>r'. r' ''Year'' = r ''Year'') (rows filtered_df))"
    if y: "y \<in> set (map (\<lambda>r'. r' ''Year'') (rows filtered_df))" "y \<noteq> NaN"
      and ny: "y \<notin> set (map (\<lambda>r. r ''Year'') sh)" and r: "r \<in> set sh" for y r
  proof -
    from y have "y \<in> set (map (\<lambda>r. r ''Year'') s1)"
      by (simp only: s1_years) (simp add: xs_def)
    then obtain r1 where r1: "r1 \<in> set s1" "r1 ''Year'' = y" by auto
    have "set (map (\<lambda>r. r ''Year'') sh) = (\<lambda>r. r ''Year'') ` set (take 10 s1)"
      using mset_eq_setD[OF sh_keys] by (simp add: take_map)
    with ny r1 have "r1 \<notin> set (take 10 s1)" by auto
    moreover have "set s1 = set (take 10 s1) \<union> set (drop 10 s1)"
      by (metis append_take_drop_id set_append)
    ultimately have d: "r1 \<in> set (drop 10 s1)" using r1(1) by auto
    from sh_row[OF r] obtain r0 where r0: "r0 \<in> set (take 10 s1)"
      and e: "r ''Year'' = r0 ''Year''" by blast
    from sorted_wrt_take_drop[OF st(3) r0 d]
    have "cell_rank (r1 ''count'') \<le> cell_rank (r0 ''count'')" .
    moreover from s1_row[OF r1(1)] have "r1 ''count'' = Num (of_nat (count_list xs y))"
      by (simp add: r1(2))
    moreover from s1_row[OF in_set_takeD[OF r0]]
    have "r0 ''count'' = Num (of_nat (count_list xs (r ''Year'')))" by (simp add: e)
    ultimately have "count_list xs y \<le> count_list xs (r ''Year'')"
      by (auto simp: less_eq_prod_def)
    then show ?thesis by (simp add: cnt)
  qed
  from ok 2 3 4 5 6 show ?thesis unfolding ld by blast
qed

lemma example_df_years:
  "map (\<lambda>r. r ''Year'') (rows example_df) = [Num 2001, Num 2001, Num 1999, NaN]"
  using arg_cong[OF example_df_cells, of "map (\<lambda>cs. cs ! 8)"] by (simp add: comp_def)

lemma example_q4:
  "map (\<lambda>r. (r ''Year'', r ''Crashes'')) (rows (loaded (q4_shown stable_sort_values example_df)))
     = [(Num 1999, Num 1), (Num 2001, Num 2)]"
  by (simp add: q4_shown_def top_counts_def value_counts_def getitem_def example_df_columns
        example_df_years count_table_def dropna_def set_columns_def head_def
        stable_sort_values_def loaded_def)

theorem q4_top_years_ascending_witness:
  "''Year'' \<in> set (columns example_df) \<and>
   sorts stable_sort_values \<and>
   map (\<lambda>r. r ''Year'') (rows example_df) = [Num 2001, Num 2001, Num 1999, NaN] \<and>
   map (\<lambda>r. (r ''Year'', r ''Crashes'')) (rows (loaded (q4_shown stable_sort_values example_df)))
     = [(Num 1999, Num 1), (Num 2001, Num 2)] \<and>
   sorted (map (\<lambda>r. cell_rank (r ''Year'')) (rows (loaded (q4_shown stable_sort_values example_df)))) \<and>
   distinct (map (\<lambda>r. r ''Year'') (rows (loaded (q4_shown stable_sort_values example_df))))"
proof -
  have y: "''Year'' \<in> set (columns example_df)"
    by (simp add: example_df_columns)
  from q4_top_years_ascending[OF y sorts_stable]
  have "sorted (map (\<lambda>r. cell_rank (r ''Year'')) (rows (loaded (q4_shown stable_sort_values example_df))))"
    and "distinct (map (\<lambda>r. r ''Year'') (rows (loaded (q4_shown stable_sort_values example_df))))"
    by blast+
  with y sorts_stable example_df_years example_q4 show ?thesis by blast
qed

end
